theory Spec2Isabelle
  imports Main "HOL-Library.Word"
begin

unbundle bit_operations_syntax

section \<open>Vulkan types used by the engine\<close>

text \<open>
  \<open>VkDeviceSize\<close> is \<open>uint64_t\<close>, \<open>uint32_t\<close> and \<open>int\<close> are 32 bits wide. Handles
  (\<open>VkBuffer\<close>, \<open>VkDeviceMemory\<close>, \<open>VkDescriptorSet\<close>, ...) are opaque; they are modelled
  as natural numbers with \<open>0\<close> for \<open>VK_NULL_HANDLE\<close>. \<open>VK_WHOLE_SIZE\<close> is \<open>(~0ULL)\<close>.
\<close>

type_synonym VkDeviceSize = "64 word"
type_synonym uint32_t = "32 word"
type_synonym byte = "8 word"
type_synonym handle = nat

definition VK_NULL_HANDLE :: handle where
  "VK_NULL_HANDLE = 0"

definition VK_WHOLE_SIZE :: VkDeviceSize where
  "VK_WHOLE_SIZE = NOT 0"

datatype VkResult =
    VK_SUCCESS
  | VK_ERROR_OUT_OF_HOST_MEMORY
  | VK_ERROR_OUT_OF_DEVICE_MEMORY
  | VK_ERROR_MEMORY_MAP_FAILED
  | VK_ERROR_FRAGMENTED_POOL
  | VK_ERROR_OUT_OF_POOL_MEMORY

text \<open>
  What interrupts a call instead of returning: a failed \<open>assert\<close> (assertions are
  modelled as enabled), a thrown \<open>std::runtime_error\<close>, and undefined behaviour of C++
  (a \<open>memcpy\<close> that leaves the memory it was given, a null smart pointer dereferenced),
  made an explicit outcome here.
\<close>

datatype exn =
    AssertionFailed string
  | RuntimeError string
  | UndefinedBehaviour string

section \<open>graphics/resources/buffer.cpp\<close>

subsection \<open>Buffer::getAlignment\<close>

definition getAlignment :: "VkDeviceSize \<Rightarrow> VkDeviceSize \<Rightarrow> VkDeviceSize" where
  "getAlignment instanceSize minOffsetAlignment =
     (if minOffsetAlignment > 0
      then (instanceSize + minOffsetAlignment - 1) AND NOT (minOffsetAlignment - 1)
      else instanceSize)"

subsection \<open>The Buffer object\<close>

text \<open>
  The Vulkan calls a buffer issues are recorded in the order they are made.
\<close>

record VkMappedMemoryRange =
  range_memory :: handle
  range_offset :: VkDeviceSize
  range_size :: VkDeviceSize

datatype VkCall =
    VkMapMemory handle VkDeviceSize VkDeviceSize
  | VkUnmapMemory handle
  | VkFlushMappedMemoryRanges VkMappedMemoryRange
  | VkInvalidateMappedMemoryRanges VkMappedMemoryRange
  | VkDestroyBuffer handle
  | VkFreeMemory handle

text \<open>
  The fields of \<open>Buffer\<close>, with two additions that live on the Vulkan side: \<open>mem_bytes\<close>,
  the bytes of the allocation behind \<open>m_memory\<close> (the buffer is bound to it at offset 0),
  and \<open>vk_calls\<close>, the calls issued so far. \<open>m_mapped\<close> is the host pointer
  \<open>vkMapMemory\<close> stored: \<open>None\<close> for \<open>nullptr\<close>, \<open>Some (p, n)\<close> for the address of
  byte \<open>p\<close> of the allocation, the start of a mapped range of \<open>n\<close> bytes.
\<close>

record Buffer =
  m_buffer :: handle
  m_memory :: handle
  m_mapped :: "(nat \<times> nat) option"
  m_instanceSize :: VkDeviceSize
  m_instanceCount :: uint32_t
  m_alignmentSize :: VkDeviceSize
  m_bufferSize :: VkDeviceSize
  mem_bytes :: "byte list"
  vk_calls :: "VkCall list"

text \<open>
  The constructor. \<open>createBuffer\<close> is a member of \<open>Context\<close>, outside this file; what it
  hands back (the two handles and the fresh allocation) is the parameter \<open>created\<close>.
\<close>

definition Buffer_ctor ::
  "handle \<times> handle \<times> byte list \<Rightarrow> VkDeviceSize \<Rightarrow> uint32_t \<Rightarrow> VkDeviceSize \<Rightarrow> Buffer" where
  "Buffer_ctor created instanceSize instanceCount minOffsetAlignment =
     (let alignmentSize = getAlignment instanceSize minOffsetAlignment;
          bufferSize = alignmentSize * ucast instanceCount
      in \<lparr> m_buffer = fst created,
           m_memory = fst (snd created),
           m_mapped = None,
           m_instanceSize = instanceSize,
           m_instanceCount = instanceCount,
           m_alignmentSize = alignmentSize,
           m_bufferSize = bufferSize,
           mem_bytes = snd (snd created),
           vk_calls = [] \<rparr>)"

text \<open>
  \<open>Buffer::map\<close>: the assertion on the two handles, then \<open>vkMapMemory\<close>. The driver's
  verdict is the parameter \<open>vkMapMemory\<close>; on \<open>VK_SUCCESS\<close> the driver stores the address
  of the first mapped byte, which is byte \<open>offset\<close> of the allocation. The range has
  \<open>size\<close> bytes, or reaches the end of the allocation for \<open>VK_WHOLE_SIZE\<close>.
\<close>

definition map_buffer ::
  "(handle \<Rightarrow> VkDeviceSize \<Rightarrow> VkDeviceSize \<Rightarrow> VkResult) \<Rightarrow> Buffer \<Rightarrow> VkDeviceSize \<Rightarrow> VkDeviceSize
   \<Rightarrow> exn + (VkResult \<times> Buffer)" where
  "map_buffer vkMapMemory b sz offset =
     (if m_buffer b = VK_NULL_HANDLE \<or> m_memory b = VK_NULL_HANDLE
      then Inl (AssertionFailed ''Called map on buffer before create'')
      else let r = vkMapMemory (m_memory b) offset sz;
               b1 = b\<lparr>vk_calls := vk_calls b @ [VkMapMemory (m_memory b) offset sz]\<rparr>;
               n = (if sz = VK_WHOLE_SIZE then length (mem_bytes b) - unat offset else unat sz)
           in Inr (r, if r = VK_SUCCESS then b1\<lparr>m_mapped := Some (unat offset, n)\<rparr> else b1))"

definition unmap :: "Buffer \<Rightarrow> Buffer" where
  "unmap b =
     (if m_mapped b \<noteq> None
      then b\<lparr>vk_calls := vk_calls b @ [VkUnmapMemory (m_memory b)], m_mapped := None\<rparr>
      else b)"

text \<open>
  The destructor: \<open>unmap\<close>, then the buffer and its memory are released.
\<close>

definition Buffer_dtor :: "Buffer \<Rightarrow> Buffer" where
  "Buffer_dtor b =
     (let b1 = unmap b
      in b1\<lparr>vk_calls := vk_calls b1 @ [VkDestroyBuffer (m_buffer b1), VkFreeMemory (m_memory b1)]\<rparr>)"

text \<open>
  \<open>memcpy\<close> of \<open>n\<close> bytes to byte \<open>dst\<close> of the allocation, through a pointer into the
  mapped range \<open>window\<close> (its first byte and its length). \<open>src\<close> holds the bytes readable
  at the source pointer. Reading past the source or writing outside the mapped range is
  \<open>None\<close>.
\<close>

definition memcpy :: "byte list \<Rightarrow> nat \<times> nat \<Rightarrow> nat \<Rightarrow> byte list \<Rightarrow> nat \<Rightarrow> byte list option" where
  "memcpy mem window dst src n =
     (if n \<le> length src \<and> fst window \<le> dst \<and> dst + n \<le> fst window + snd window
         \<and> dst + n \<le> length mem
      then Some (take dst mem @ take n src @ drop (dst + n) mem)
      else None)"

definition writeToBuffer :: "Buffer \<Rightarrow> byte list \<Rightarrow> VkDeviceSize \<Rightarrow> VkDeviceSize \<Rightarrow> exn + Buffer" where
  "writeToBuffer b data sz offset =
     (case m_mapped b of
        None \<Rightarrow> Inl (AssertionFailed ''Cannot copy to unmapped buffer'')
      | Some window \<Rightarrow>
          if sz = VK_WHOLE_SIZE
          then (case memcpy (mem_bytes b) window (fst window) data (unat (m_bufferSize b)) of
                  None \<Rightarrow> Inl (UndefinedBehaviour ''memcpy out of bounds'')
                | Some m \<Rightarrow> Inr (b\<lparr>mem_bytes := m\<rparr>))
          else (case memcpy (mem_bytes b) window (fst window + unat offset) data (unat sz) of
                  None \<Rightarrow> Inl (UndefinedBehaviour ''memcpy out of bounds'')
                | Some m \<Rightarrow> Inr (b\<lparr>mem_bytes := m\<rparr>)))"

text \<open>
  \<open>flush\<close> and \<open>invalidate\<close> fill in a range and return what the driver answers; the
  driver's answer is the parameter.
\<close>

definition flush ::
  "(VkMappedMemoryRange \<Rightarrow> VkResult) \<Rightarrow> Buffer \<Rightarrow> VkDeviceSize \<Rightarrow> VkDeviceSize
   \<Rightarrow> exn + (VkResult \<times> Buffer)" where
  "flush vkFlushMappedMemoryRanges b sz offset =
     (let mappedRange = \<lparr> range_memory = m_memory b, range_offset = offset, range_size = sz \<rparr>
      in Inr (vkFlushMappedMemoryRanges mappedRange,
              b\<lparr>vk_calls := vk_calls b @ [VkFlushMappedMemoryRanges mappedRange]\<rparr>))"

definition invalidate ::
  "(VkMappedMemoryRange \<Rightarrow> VkResult) \<Rightarrow> Buffer \<Rightarrow> VkDeviceSize \<Rightarrow> VkDeviceSize
   \<Rightarrow> exn + (VkResult \<times> Buffer)" where
  "invalidate vkInvalidateMappedMemoryRanges b sz offset =
     (let mappedRange = \<lparr> range_memory = m_memory b, range_offset = offset, range_size = sz \<rparr>
      in Inr (vkInvalidateMappedMemoryRanges mappedRange,
              b\<lparr>vk_calls := vk_calls b @ [VkInvalidateMappedMemoryRanges mappedRange]\<rparr>))"

record VkDescriptorBufferInfo =
  info_buffer :: handle
  info_offset :: VkDeviceSize
  info_range :: VkDeviceSize

definition descriptorInfo :: "Buffer \<Rightarrow> VkDeviceSize \<Rightarrow> VkDeviceSize \<Rightarrow> VkDescriptorBufferInfo" where
  "descriptorInfo b sz offset =
     \<lparr> info_buffer = m_buffer b, info_offset = offset, info_range = sz \<rparr>"

text \<open>
  The index helpers take an \<open>int\<close>; \<open>index * m_alignmentSize\<close> converts it to
  \<open>uint64_t\<close> (sign extension) and multiplies modulo \<open>2^64\<close>.
\<close>

definition index_offset :: "Buffer \<Rightarrow> 32 word \<Rightarrow> VkDeviceSize" where
  "index_offset b index = scast index * m_alignmentSize b"

definition writeToIndex :: "Buffer \<Rightarrow> byte list \<Rightarrow> 32 word \<Rightarrow> exn + Buffer" where
  "writeToIndex b data index = writeToBuffer b data (m_instanceSize b) (index_offset b index)"

definition flushIndex ::
  "(VkMappedMemoryRange \<Rightarrow> VkResult) \<Rightarrow> Buffer \<Rightarrow> 32 word \<Rightarrow> exn + (VkResult \<times> Buffer)" where
  "flushIndex drv b index = flush drv b (m_alignmentSize b) (index_offset b index)"

definition descriptorInfoForIndex :: "Buffer \<Rightarrow> 32 word \<Rightarrow> VkDescriptorBufferInfo" where
  "descriptorInfoForIndex b index = descriptorInfo b (m_alignmentSize b) (index_offset b index)"

definition invalidateIndex ::
  "(VkMappedMemoryRange \<Rightarrow> VkResult) \<Rightarrow> Buffer \<Rightarrow> 32 word \<Rightarrow> exn + (VkResult \<times> Buffer)" where
  "invalidateIndex drv b index = invalidate drv b (m_alignmentSize b) (index_offset b index)"

text \<open>
  No member function reads the buffer back. What the device reads through a descriptor
  are the bytes of the buffer from \<open>offset\<close> on, \<open>range\<close> of them (\<open>VK_WHOLE_SIZE\<close>: up to
  the end of the buffer); the buffer starts at byte 0 of its allocation.
\<close>

definition read_descriptor :: "Buffer \<Rightarrow> VkDescriptorBufferInfo \<Rightarrow> byte list option" where
  "read_descriptor b info =
     (let off = unat (info_offset info);
          n = (if info_range info = VK_WHOLE_SIZE then unat (m_bufferSize b) - off
               else unat (info_range info))
      in if info_buffer info = m_buffer b \<and> off + n \<le> length (mem_bytes b)
         then Some (take n (drop off (mem_bytes b)))
         else None)"

section \<open>graphics/descriptors.cpp and graphics/descriptors/descriptor_writer.cpp\<close>

datatype VkDescriptorType =
    VK_DESCRIPTOR_TYPE_COMBINED_IMAGE_SAMPLER
  | VK_DESCRIPTOR_TYPE_UNIFORM_BUFFER
  | VK_DESCRIPTOR_TYPE_STORAGE_BUFFER
  | VK_DESCRIPTOR_TYPE_ACCELERATION_STRUCTURE_KHR

record VkDescriptorSetLayoutBinding =
  lb_binding :: uint32_t
  lb_descriptorType :: VkDescriptorType
  lb_descriptorCount :: uint32_t
  lb_stageFlags :: uint32_t

record VkDescriptorImageInfo =
  img_sampler :: handle
  img_imageView :: handle
  img_imageLayout :: nat

text \<open>
  \<open>pBufferInfo\<close> and \<open>pImageInfo\<close> are pointers: \<open>None\<close> is the null pointer a
  value-initialised \<open>VkWriteDescriptorSet\<close> holds.
\<close>

record VkWriteDescriptorSet =
  dstSet :: handle
  dstBinding :: uint32_t
  descriptorCount :: uint32_t
  descriptorType :: VkDescriptorType
  pBufferInfo :: "VkDescriptorBufferInfo option"
  pImageInfo :: "VkDescriptorImageInfo option"

record VkDescriptorSetAllocateInfo =
  descriptorPool :: handle
  pSetLayouts :: "handle list"
  descriptorSetCount :: uint32_t

text \<open>
  The two Vulkan entry points the pool and the writer call. The driver is not part of the
  repository: it is a parameter, acting on a device state of any type \<open>'d\<close>.
  \<open>vkAllocateDescriptorSets\<close> answers with its result code and the handle it stored in
  \<open>pDescriptorSets[0]\<close>.
\<close>

record 'd VulkanDriver =
  vkAllocateDescriptorSets :: "'d \<Rightarrow> VkDescriptorSetAllocateInfo \<Rightarrow> VkResult \<times> handle \<times> 'd"
  vkUpdateDescriptorSets :: "'d \<Rightarrow> VkWriteDescriptorSet list \<Rightarrow> 'd"

record DescriptorSetLayout =
  m_descriptorSetLayout :: handle
  m_bindings :: "uint32_t \<rightharpoonup> VkDescriptorSetLayoutBinding"

record DescriptorPool =
  m_descriptorPool :: handle

record DescriptorWriter =
  m_setLayout :: DescriptorSetLayout
  m_pool :: DescriptorPool
  m_writes :: "VkWriteDescriptorSet list"

definition getDescriptorSetLayout :: "DescriptorSetLayout \<Rightarrow> handle" where
  "getDescriptorSetLayout l = m_descriptorSetLayout l"

subsection \<open>DescriptorSetLayout::Builder::addBinding\<close>

definition addBinding ::
  "(uint32_t \<rightharpoonup> VkDescriptorSetLayoutBinding) \<Rightarrow> uint32_t \<Rightarrow> VkDescriptorType \<Rightarrow> uint32_t \<Rightarrow> uint32_t
   \<Rightarrow> exn + (uint32_t \<rightharpoonup> VkDescriptorSetLayoutBinding)" where
  "addBinding bindings binding dtype stageFlags count =
     (if bindings binding \<noteq> None then Inl (AssertionFailed ''Binding already in use'')
      else Inr (bindings(binding \<mapsto>
             \<lparr> lb_binding = binding, lb_descriptorType = dtype,
               lb_descriptorCount = count, lb_stageFlags = stageFlags \<rparr>)))"

subsection \<open>DescriptorPool::allocateDescriptorSet\<close>

text \<open>
  Returns the \<open>bool\<close>, the handle left in the reference parameter \<open>descriptor\<close>, and the
  device state.
\<close>

definition allocateDescriptorSet ::
  "'d VulkanDriver \<Rightarrow> DescriptorPool \<Rightarrow> handle \<Rightarrow> 'd \<Rightarrow> exn + (bool \<times> handle \<times> 'd)" where
  "allocateDescriptorSet vk pool descriptorSetLayout dev =
     (let allocInfo = \<lparr> descriptorPool = m_descriptorPool pool,
                         pSetLayouts = [descriptorSetLayout],
                         descriptorSetCount = 1 \<rparr>;
          r = vkAllocateDescriptorSets vk dev allocInfo
      in if fst r \<noteq> VK_SUCCESS
         then Inr (False, fst (snd r), snd (snd r))
         else Inr (True, fst (snd r), snd (snd r)))"

subsection \<open>DescriptorWriter\<close>

definition DescriptorWriter_ctor :: "DescriptorSetLayout \<Rightarrow> DescriptorPool \<Rightarrow> DescriptorWriter" where
  "DescriptorWriter_ctor setLayout pool =
     \<lparr> m_setLayout = setLayout, m_pool = pool, m_writes = [] \<rparr>"

definition writeBuffer ::
  "DescriptorWriter \<Rightarrow> uint32_t \<Rightarrow> VkDescriptorBufferInfo \<Rightarrow> exn + DescriptorWriter" where
  "writeBuffer w binding bufferInfo =
     (case m_bindings (m_setLayout w) binding of
        None \<Rightarrow> Inl (AssertionFailed ''Layout does not contain specified binding'')
      | Some bindingDescription \<Rightarrow>
          if lb_descriptorCount bindingDescription \<noteq> 1
          then Inl (AssertionFailed ''Binding single descriptor info, but binding expects multiple'')
          else Inr (w\<lparr>m_writes := m_writes w @
                 [\<lparr> dstSet = VK_NULL_HANDLE, dstBinding = binding, descriptorCount = 1,
                    descriptorType = lb_descriptorType bindingDescription,
                    pBufferInfo = Some bufferInfo, pImageInfo = None \<rparr>]\<rparr>))"

definition writeImage ::
  "DescriptorWriter \<Rightarrow> uint32_t \<Rightarrow> VkDescriptorImageInfo \<Rightarrow> exn + DescriptorWriter" where
  "writeImage w binding imageInfo =
     (case m_bindings (m_setLayout w) binding of
        None \<Rightarrow> Inl (AssertionFailed ''Layout does not contain specified binding'')
      | Some bindingDescription \<Rightarrow>
          if lb_descriptorCount bindingDescription \<noteq> 1
          then Inl (AssertionFailed ''Binding single descriptor info, but binding expects multiple'')
          else Inr (w\<lparr>m_writes := m_writes w @
                 [\<lparr> dstSet = VK_NULL_HANDLE, dstBinding = binding, descriptorCount = 1,
                    descriptorType = lb_descriptorType bindingDescription,
                    pBufferInfo = None, pImageInfo = Some imageInfo \<rparr>]\<rparr>))"

text \<open>
  \<open>overwrite\<close> is the same in both files: the loop stores \<open>set\<close> in every pending
  write, then all of them go to \<open>vkUpdateDescriptorSets\<close> in one call.
\<close>

definition overwrite ::
  "'d VulkanDriver \<Rightarrow> DescriptorWriter \<Rightarrow> handle \<Rightarrow> 'd \<Rightarrow> DescriptorWriter \<times> 'd" where
  "overwrite vk w set' dev =
     (let writes = map (\<lambda>write. write\<lparr>dstSet := set'\<rparr>) (m_writes w)
      in (w\<lparr>m_writes := writes\<rparr>, vkUpdateDescriptorSets vk dev writes))"

text \<open>
  \<open>DescriptorWriter::build\<close> of \<^verbatim>\<open>descriptors.cpp\<close>, returning \<open>bool\<close>. The result is the
  \<open>bool\<close>, the writer, the handle left in \<open>set\<close> and the device state.
\<close>

definition build_descriptors_cpp ::
  "'d VulkanDriver \<Rightarrow> DescriptorWriter \<Rightarrow> 'd \<Rightarrow> exn + (bool \<times> DescriptorWriter \<times> handle \<times> 'd)" where
  "build_descriptors_cpp vk w dev =
     (case allocateDescriptorSet vk (m_pool w) (getDescriptorSetLayout (m_setLayout w)) dev of
        Inl e \<Rightarrow> Inl e
      | Inr (success, set', dev1) \<Rightarrow>
          if \<not> success then Inr (False, w, set', dev1)
          else (case overwrite vk w set' dev1 of
                  (w2, dev2) \<Rightarrow> Inr (True, w2, set', dev2)))"

text \<open>
  \<open>DescriptorWriter::build\<close> of \<^verbatim>\<open>descriptors/descriptor_writer.cpp\<close>, returning \<open>void\<close>:
  the \<open>bool\<close> of \<open>allocateDescriptorSet\<close> is dropped.
\<close>

definition build_descriptor_writer_cpp ::
  "'d VulkanDriver \<Rightarrow> DescriptorWriter \<Rightarrow> 'd \<Rightarrow> exn + (DescriptorWriter \<times> handle \<times> 'd)" where
  "build_descriptor_writer_cpp vk w dev =
     (case allocateDescriptorSet vk (m_pool w) (getDescriptorSetLayout (m_setLayout w)) dev of
        Inl e \<Rightarrow> Inl e
      | Inr (success, set', dev1) \<Rightarrow>
          (case overwrite vk w set' dev1 of
             (w2, dev2) \<Rightarrow> Inr (w2, set', dev2)))"

subsection \<open>A descriptor pool of fixed capacity\<close>

text \<open>
  A concrete driver for the examples: a pool that hands out the handles \<open>1, 2, ...\<close>
  until \<open>capacity\<close> sets are live and then answers \<open>VK_ERROR_OUT_OF_POOL_MEMORY\<close> with
  \<open>VK_NULL_HANDLE\<close>, and a device that keeps every write it was sent, in order.
\<close>

record PoolDevice =
  capacity :: nat
  live :: nat
  received :: "VkWriteDescriptorSet list"

definition pool_driver :: "PoolDevice VulkanDriver" where
  "pool_driver =
     \<lparr> vkAllocateDescriptorSets = (\<lambda>d info.
          if live d < capacity d
          then (VK_SUCCESS, Suc (live d), d\<lparr>live := Suc (live d)\<rparr>)
          else (VK_ERROR_OUT_OF_POOL_MEMORY, VK_NULL_HANDLE, d)),
       vkUpdateDescriptorSets = (\<lambda>d writes. d\<lparr>received := received d @ writes\<rparr>) \<rparr>"

section \<open>graphics/render_systems/raytracing_scene_manager_system.hpp\<close>

text \<open>
  The fields of the system as the header declares them. \<open>float\<close> members are kept as
  their 32 bits; smart pointers are \<open>None\<close> when null, else the handle of what they own.
\<close>

record MeshInstanceData =
  vertexBufferAddress :: "64 word"
  indexBufferAddress :: "64 word"
  materialIndex :: uint32_t
  textureTilingFactor :: "32 word"
  textureTintColor :: "32 word \<times> 32 word \<times> 32 word \<times> 32 word"

record RayTracingSceneManagerSystem =
  m_tlas :: handle
  m_tlasBuffer :: "handle option"
  m_buildSizeInfo :: nat
  m_createInfo :: nat
  m_tlasDescriptorSetLayout :: "handle option"
  m_tlasDescriptorSet :: handle
  m_meshInstanceData :: "MeshInstanceData list"
  m_meshInstanceDescriptorSetLayout :: "handle option"
  m_meshInstanceBuffer :: "handle option"
  m_meshInstanceDescriptorSet :: handle

definition updateTLAS :: "RayTracingSceneManagerSystem \<Rightarrow> RayTracingSceneManagerSystem" where
  "updateTLAS s = s"

definition getTLASDescriptorSet :: "RayTracingSceneManagerSystem \<Rightarrow> handle" where
  "getTLASDescriptorSet s = m_tlasDescriptorSet s"

definition getTLASDescriptorSetLayout :: "RayTracingSceneManagerSystem \<Rightarrow> exn + handle" where
  "getTLASDescriptorSetLayout s =
     (case m_tlasDescriptorSetLayout s of None \<Rightarrow> Inl (UndefinedBehaviour ''null pointer dereference'') | Some l \<Rightarrow> Inr l)"

definition getMeshInstanceDescriptorSet :: "RayTracingSceneManagerSystem \<Rightarrow> handle" where
  "getMeshInstanceDescriptorSet s = m_meshInstanceDescriptorSet s"

definition getMeshInstanceDescriptorSetLayout :: "RayTracingSceneManagerSystem \<Rightarrow> exn + handle" where
  "getMeshInstanceDescriptorSetLayout s =
     (case m_meshInstanceDescriptorSetLayout s of None \<Rightarrow> Inl (UndefinedBehaviour ''null pointer dereference'') | Some l \<Rightarrow> Inr l)"

text \<open>
  The public member functions of a live system. The header only declares \<open>createTLAS\<close>,
  so its body is a parameter: any state transformer. A call gives the state afterwards
  and what was returned, if anything.
\<close>

datatype 'f scene_call =
    CreateTLAS 'f
  | UpdateTLAS
  | GetTLASDescriptorSet
  | GetTLASDescriptorSetLayout
  | GetMeshInstanceDescriptorSet
  | GetMeshInstanceDescriptorSetLayout

definition scene_call ::
  "('f \<Rightarrow> RayTracingSceneManagerSystem \<Rightarrow> RayTracingSceneManagerSystem) \<Rightarrow> 'f scene_call
   \<Rightarrow> RayTracingSceneManagerSystem \<Rightarrow> RayTracingSceneManagerSystem \<times> (exn + handle) option" where
  "scene_call createTLAS c s =
     (case c of
        CreateTLAS frameInfo \<Rightarrow> (createTLAS frameInfo s, None)
      | UpdateTLAS \<Rightarrow> (updateTLAS s, None)
      | GetTLASDescriptorSet \<Rightarrow> (s, Some (Inr (getTLASDescriptorSet s)))
      | GetTLASDescriptorSetLayout \<Rightarrow> (s, Some (getTLASDescriptorSetLayout s))
      | GetMeshInstanceDescriptorSet \<Rightarrow> (s, Some (Inr (getMeshInstanceDescriptorSet s)))
      | GetMeshInstanceDescriptorSetLayout \<Rightarrow> (s, Some (getMeshInstanceDescriptorSetLayout s)))"

section \<open>Well-formed buffers and valid indices\<close>

text \<open>
  What the constructor establishes when none of its \<open>uint64_t\<close> computations wraps
  around: an element fits in its stride, \<open>m_bufferSize\<close> is the product of stride and
  count, and the allocation covers the buffer.
\<close>

definition Buffer_layout_ok :: "Buffer \<Rightarrow> bool" where
  "Buffer_layout_ok b \<longleftrightarrow>
     m_instanceSize b \<le> m_alignmentSize b \<and>
     unat (m_alignmentSize b) * unat (m_instanceCount b) = unat (m_bufferSize b) \<and>
     unat (m_bufferSize b) \<le> length (mem_bytes b)"

text \<open>
  An index is valid when it is not negative and below \<open>m_instanceCount\<close>.
\<close>

definition valid_index :: "Buffer \<Rightarrow> 32 word \<Rightarrow> bool" where
  "valid_index b index \<longleftrightarrow> 0 \<le> sint index \<and> nat (sint index) < unat (m_instanceCount b)"

section \<open>Example objects\<close>

text \<open>
  A buffer of two elements of 3 bytes each, aligned to 4, on an allocation of 8 zero bytes.
\<close>

definition example_buffer :: Buffer where
  "example_buffer = Buffer_ctor (1, 2, [0, 0, 0, 0, 0, 0, 0, 0]) 3 2 4"

text \<open>
  Drivers that accept every request.
\<close>

definition accept_map :: "handle \<Rightarrow> VkDeviceSize \<Rightarrow> VkDeviceSize \<Rightarrow> VkResult" where
  "accept_map memory offset sz = VK_SUCCESS"

definition accept_range :: "VkMappedMemoryRange \<Rightarrow> VkResult" where
  "accept_range mappedRange = VK_SUCCESS"

text \<open>
  The example buffer after \<open>map ()\<close> with the default arguments (\<open>VK_WHOLE_SIZE\<close>,
  offset 0), and after \<open>map (VK_WHOLE_SIZE, 4)\<close>.
\<close>

definition whole_mapped_buffer :: Buffer where
  "whole_mapped_buffer =
     example_buffer\<lparr>vk_calls := [VkMapMemory 2 0 VK_WHOLE_SIZE], m_mapped := Some (0, 8)\<rparr>"

definition offset_mapped_buffer :: Buffer where
  "offset_mapped_buffer =
     example_buffer\<lparr>vk_calls := [VkMapMemory 2 4 VK_WHOLE_SIZE], m_mapped := Some (4, 4)\<rparr>"

text \<open>
  A layout with one uniform-buffer binding, a writer holding one pending buffer write for
  it, and two states of a pool of capacity 1: empty and exhausted.
\<close>

definition example_layout :: DescriptorSetLayout where
  "example_layout =
     \<lparr> m_descriptorSetLayout = 7,
       m_bindings = [0 \<mapsto> \<lparr> lb_binding = 0, lb_descriptorType = VK_DESCRIPTOR_TYPE_UNIFORM_BUFFER,
                            lb_descriptorCount = 1, lb_stageFlags = 1 \<rparr>] \<rparr>"

definition example_pool :: DescriptorPool where
  "example_pool = \<lparr> m_descriptorPool = 9 \<rparr>"

definition example_info :: VkDescriptorBufferInfo where
  "example_info = \<lparr> info_buffer = 1, info_offset = 0, info_range = 8 \<rparr>"

definition example_write :: VkWriteDescriptorSet where
  "example_write =
     \<lparr> dstSet = VK_NULL_HANDLE, dstBinding = 0, descriptorCount = 1,
       descriptorType = VK_DESCRIPTOR_TYPE_UNIFORM_BUFFER,
       pBufferInfo = Some example_info, pImageInfo = None \<rparr>"

definition example_writer :: DescriptorWriter where
  "example_writer =
     \<lparr> m_setLayout = example_layout, m_pool = example_pool, m_writes = [example_write] \<rparr>"

definition fresh_device :: PoolDevice where
  "fresh_device = \<lparr> capacity = 1, live = 0, received = [] \<rparr>"

definition exhausted_device :: PoolDevice where
  "exhausted_device = \<lparr> capacity = 1, live = 1, received = [] \<rparr>"

text \<open>
  A scene manager before its first build, and a stand-in for \<open>createTLAS\<close> that
  installs a new acceleration structure and its buffer.
\<close>

definition example_scene :: RayTracingSceneManagerSystem where
  "example_scene =
     \<lparr> m_tlas = VK_NULL_HANDLE, m_tlasBuffer = None, m_buildSizeInfo = 0, m_createInfo = 0,
       m_tlasDescriptorSetLayout = Some 3, m_tlasDescriptorSet = VK_NULL_HANDLE,
       m_meshInstanceData = [], m_meshInstanceDescriptorSetLayout = Some 4,
       m_meshInstanceBuffer = None, m_meshInstanceDescriptorSet = VK_NULL_HANDLE \<rparr>"

definition rebuild_stub :: "nat \<Rightarrow> RayTracingSceneManagerSystem \<Rightarrow> RayTracingSceneManagerSystem" where
  "rebuild_stub frame s = s\<lparr>m_tlas := Suc (m_tlas s), m_tlasBuffer := Some (Suc frame)\<rparr>"

section \<open>The example objects, field by field\<close>

lemma example_buffer_eq:
  "example_buffer =
     \<lparr> m_buffer = 1, m_memory = 2, m_mapped = None, m_instanceSize = 3,
       m_instanceCount = 2, m_alignmentSize = 4, m_bufferSize = 8,
       mem_bytes = [0, 0, 0, 0, 0, 0, 0, 0], vk_calls = [] \<rparr>"
  by (simp add: example_buffer_def Buffer_ctor_def getAlignment_def Let_def)

lemma whole_mapped_buffer_eq:
  "whole_mapped_buffer =
     \<lparr> m_buffer = 1, m_memory = 2, m_mapped = Some (0, 8), m_instanceSize = 3,
       m_instanceCount = 2, m_alignmentSize = 4, m_bufferSize = 8,
       mem_bytes = [0, 0, 0, 0, 0, 0, 0, 0],
       vk_calls = [VkMapMemory 2 0 VK_WHOLE_SIZE] \<rparr>"
  by (simp add: whole_mapped_buffer_def example_buffer_eq)

lemma offset_mapped_buffer_eq:
  "offset_mapped_buffer =
     \<lparr> m_buffer = 1, m_memory = 2, m_mapped = Some (4, 4), m_instanceSize = 3,
       m_instanceCount = 2, m_alignmentSize = 4, m_bufferSize = 8,
       mem_bytes = [0, 0, 0, 0, 0, 0, 0, 0],
       vk_calls = [VkMapMemory 2 4 VK_WHOLE_SIZE] \<rparr>"
  by (simp add: offset_mapped_buffer_def example_buffer_eq)

lemma map_example_whole:
  "map_buffer accept_map example_buffer VK_WHOLE_SIZE 0 = Inr (VK_SUCCESS, whole_mapped_buffer)"
  by (simp add: map_buffer_def accept_map_def whole_mapped_buffer_eq example_buffer_eq
      VK_NULL_HANDLE_def Let_def)

lemma map_example_offset:
  "map_buffer accept_map example_buffer VK_WHOLE_SIZE 4 = Inr (VK_SUCCESS, offset_mapped_buffer)"
  by (simp add: map_buffer_def accept_map_def offset_mapped_buffer_eq example_buffer_eq
      VK_NULL_HANDLE_def Let_def)

lemma example_layout_built:
  "addBinding Map.empty 0 VK_DESCRIPTOR_TYPE_UNIFORM_BUFFER 1 1 = Inr (m_bindings example_layout)"
  by (simp add: addBinding_def example_layout_def)

lemma example_writer_built:
  "writeBuffer (DescriptorWriter_ctor example_layout example_pool) 0 example_info
   = Inr example_writer"
  by (simp add: writeBuffer_def DescriptorWriter_ctor_def example_writer_def example_layout_def
      example_write_def)


section \<open>Properties of Buffer::getAlignment\<close>

lemma and_not_mask_push: "(w :: 64 word) AND NOT (mask n) = push_bit n (drop_bit n w)"
  by (rule bit_eqI) (auto simp add: bit_simps)

lemma and_not_mask_minus: "(w :: 64 word) AND NOT (mask n) = w - take_bit n w"
proof -
  have "push_bit n (drop_bit n w) + take_bit n w = w" by (rule bits_ident)
  then show ?thesis by (simp add: and_not_mask_push algebra_simps)
qed

lemma unat_take_bit_w: "unat (take_bit n (w :: 64 word)) = unat w mod 2 ^ n"
  by (metis take_bit_eq_mod unsigned_take_bit_eq)

lemma take_bit_le_w: "take_bit n (w :: 64 word) \<le> w"
  by (simp add: word_le_nat_alt unat_take_bit_w)

lemma align_down: "unat ((w :: 64 word) AND NOT (mask n)) = unat w - unat w mod 2 ^ n"
  by (simp add: and_not_mask_minus unat_sub take_bit_le_w unat_take_bit_w)

lemma pow2_word_pos: "n < 64 \<Longrightarrow> (0 :: 64 word) < 2 ^ n"
  by (simp add: word_greater_zero_iff)

lemma unat_pow2_word: "n < 64 \<Longrightarrow> unat ((2 :: 64 word) ^ n) = 2 ^ n"
proof -
  assume "n < 64"
  then have "uint ((2 :: 64 word) ^ n) = 2 ^ n" by (simp add: uint_2p pow2_word_pos)
  then have "nat (uint ((2 :: 64 word) ^ n)) = nat (2 ^ n)" by simp
  then show ?thesis by (simp add: nat_power_eq)
qed

lemma getAlignment_pow2:
  assumes "n < 64"
  shows "unat (getAlignment x (2 ^ n)) = unat (x + 2 ^ n - 1) - unat (x + 2 ^ n - 1) mod 2 ^ n"
proof -
  have "getAlignment x (2 ^ n) = (x + 2 ^ n - 1) AND NOT (mask n)"
    using pow2_word_pos [OF assms] by (simp add: getAlignment_def mask_eq_exp_minus_1)
  then show ?thesis by (simp add: align_down)
qed

lemma getAlignment_pow2_multiple:
  assumes "n < 64"
  shows "getAlignment x (2 ^ n) mod 2 ^ n = 0"
proof -
  have "unat (getAlignment x (2 ^ n) mod 2 ^ n) = 0"
    by (simp add: unat_mod getAlignment_pow2 [OF assms] unat_pow2_word [OF assms])
  then show ?thesis by (simp add: unat_eq_0)
qed

lemma getAlignment_pow2_ge:
  assumes n: "n < 64" and nowrap: "unat x + 2 ^ n \<le> 2 ^ 64" and pos: "0 < x"
  shows "x \<le> getAlignment x (2 ^ n)"
proof -
  have x1: "1 \<le> unat x" using pos by (simp add: word_less_nat_alt)
  have p1: "(1 :: 64 word) \<le> 2 ^ n"
    using n by (simp add: word_le_nat_alt unat_pow2_word)
  have u1: "unat ((2 :: 64 word) ^ n - 1) = 2 ^ n - 1"
    using p1 by (simp add: unat_sub unat_pow2_word [OF n])
  have "unat x + unat ((2 :: 64 word) ^ n - 1) < 2 ^ 64"
    using nowrap u1 by simp
  then have "unat (x + (2 ^ n - 1)) = unat x + unat ((2 :: 64 word) ^ n - 1)"
    by (simp add: unat_add_lem [THEN iffD1])
  then have y: "unat (x + 2 ^ n - 1) = unat x + (2 ^ n - 1)"
    using u1 by (simp add: add_diff_eq)
  have "(unat x + (2 ^ n - 1)) mod 2 ^ n < (2::nat) ^ n"
    by simp
  then have "(unat x + (2 ^ n - 1)) mod 2 ^ n \<le> (2::nat) ^ n - 1"
    by linarith
  then have "unat x \<le> unat (getAlignment x (2 ^ n))"
    unfolding getAlignment_pow2 [OF n] y by linarith
  then show ?thesis by (simp add: word_le_nat_alt)
qed

lemma getAlignment_zero: "getAlignment x 0 = x"
  by (simp add: getAlignment_def)

lemma listed_alignment_cases:
  assumes "a \<in> {0, 1, 4, 16, 256 :: 64 word}"
  shows "a = 0 \<or> (\<exists>n < 64. a = 2 ^ n)"
proof -
  have "(1 :: 64 word) = 2 ^ 0" "(4 :: 64 word) = 2 ^ 2"
       "(16 :: 64 word) = 2 ^ 4" "(256 :: 64 word) = 2 ^ 8"
    by simp_all
  moreover have "(0::nat) < 64" "(2::nat) < 64" "(4::nat) < 64" "(8::nat) < 64"
    by simp_all
  moreover from assms have "a = 0 \<or> a = 1 \<or> a = 4 \<or> a = 16 \<or> a = 256"
    by simp
  ultimately show ?thesis by metis
qed

text \<open>
  C3, as far as it holds. For a listed alignment the result is always a multiple of the
  alignment, and it is the instance size itself when the alignment is 0. It is at least
  the instance size when \<open>instanceSize + minOffsetAlignment - 1\<close> does not exceed
  \<open>2^64 - 1\<close>: the sum is computed in \<open>uint64_t\<close> and wraps around beyond that.
\<close>

theorem getAlignment_listed:
  assumes "minOffsetAlignment \<in> {0, 1, 4, 16, 256}" and "0 < instanceSize"
  shows "(0 < minOffsetAlignment \<longrightarrow>
            getAlignment instanceSize minOffsetAlignment mod minOffsetAlignment = 0 \<and>
            (unat instanceSize + unat minOffsetAlignment \<le> 2 ^ 64 \<longrightarrow>
               instanceSize \<le> getAlignment instanceSize minOffsetAlignment)) \<and>
         (minOffsetAlignment = 0 \<longrightarrow>
            getAlignment instanceSize minOffsetAlignment = instanceSize)"
proof -
  from listed_alignment_cases [OF assms(1)]
  consider "minOffsetAlignment = 0" | n where "n < 64" and "minOffsetAlignment = 2 ^ n"
    by blast
  then show ?thesis
  proof cases
    case 1
    then show ?thesis by (simp add: getAlignment_zero)
  next
    case 2
    have "unat instanceSize + unat minOffsetAlignment \<le> 2 ^ 64 \<Longrightarrow>
          instanceSize \<le> getAlignment instanceSize minOffsetAlignment"
      using getAlignment_pow2_ge [OF 2(1) _ assms(2)] 2 by (simp add: unat_pow2_word)
    moreover have "getAlignment instanceSize minOffsetAlignment mod minOffsetAlignment = 0"
      using getAlignment_pow2_multiple 2 by simp
    moreover have "minOffsetAlignment \<noteq> 0"
      using pow2_word_pos 2 by auto
    ultimately show ?thesis by simp
  qed
qed

theorem getAlignment_listed_witness:
  "(4 :: 64 word) \<in> {0, 1, 4, 16, 256} \<and> (0 :: 64 word) < 3 \<and> (0 :: 64 word) < 4 \<and>
   unat (3 :: 64 word) + unat (4 :: 64 word) \<le> 2 ^ 64 \<and>
   getAlignment 3 4 mod 4 = 0 \<and> 3 \<le> getAlignment 3 4 \<and> getAlignment 3 4 = 4"
  using getAlignment_listed [of 4 3] by (simp add: getAlignment_def)

text \<open>
  C3 as stated fails at the top of the \<open>uint64_t\<close> range: for the instance size
  \<open>2^64 - 1\<close> and the alignment 4 the sum wraps to 2 and the result is 0.
\<close>

theorem getAlignment_wraps:
  "(0 :: 64 word) < 0xFFFFFFFFFFFFFFFF \<and> (4 :: 64 word) \<in> {0, 1, 4, 16, 256} \<and>
   getAlignment 0xFFFFFFFFFFFFFFFF 4 = 0 \<and>
   \<not> (0xFFFFFFFFFFFFFFFF \<le> getAlignment 0xFFFFFFFFFFFFFFFF 4)"
  by (simp add: getAlignment_def)


section \<open>Properties of Buffer::unmap\<close>

lemma unmap_unmapped: "m_mapped b = None \<Longrightarrow> unmap b = b"
  by (simp add: unmap_def)

lemma m_mapped_unmap: "m_mapped (unmap b) = None"
  by (cases "m_mapped b") (simp_all add: unmap_def)

lemma unmap_calls:
  "vk_calls (unmap b) =
     (if m_mapped b = None then vk_calls b else vk_calls b @ [VkUnmapMemory (m_memory b)])"
  by (cases "m_mapped b") (simp_all add: unmap_def)

text \<open>
  C10. Without a mapping \<open>unmap\<close> changes nothing and issues no Vulkan call; a second
  \<open>unmap\<close> changes nothing after the first; the pointer is null afterwards in every
  case; and the destructor, which starts with \<open>unmap\<close>, leaves the pointer null and
  issues \<open>vkUnmapMemory\<close> exactly when a mapping was active.
\<close>

theorem unmap_idempotent:
  "(m_mapped b = None \<longrightarrow> unmap b = b) \<and>
   unmap (unmap b) = unmap b \<and>
   m_mapped (unmap b) = None \<and>
   m_mapped (Buffer_dtor b) = None \<and>
   vk_calls (Buffer_dtor b) =
     vk_calls b @ (if m_mapped b = None then [] else [VkUnmapMemory (m_memory b)])
       @ [VkDestroyBuffer (m_buffer b), VkFreeMemory (m_memory b)]"
proof -
  have "unmap (unmap b) = unmap b"
    using unmap_unmapped [OF m_mapped_unmap] .
  moreover have "m_buffer (unmap b) = m_buffer b" "m_memory (unmap b) = m_memory b"
    by (simp_all add: unmap_def)
  ultimately show ?thesis
    by (simp add: unmap_unmapped m_mapped_unmap Buffer_dtor_def Let_def unmap_calls)
qed

theorem unmap_idempotent_witness:
  "m_mapped example_buffer = None \<and> unmap example_buffer = example_buffer \<and>
   vk_calls (Buffer_dtor example_buffer) = [VkDestroyBuffer 1, VkFreeMemory 2]"
  using unmap_idempotent [of example_buffer] by (simp add: example_buffer_eq)


section \<open>Copying into the mapped range\<close>

lemma memcpy_Some:
  assumes "n \<le> length src" "fst window \<le> dst" "dst + n \<le> fst window + snd window"
    "dst + n \<le> length mem"
  shows "memcpy mem window dst src n = Some (take dst mem @ take n src @ drop (dst + n) mem)"
  using assms by (simp add: memcpy_def)

lemma stored_length:
  "n \<le> length src \<Longrightarrow> dst + n \<le> length mem \<Longrightarrow>
   length (take dst mem @ take n src @ drop (dst + n) mem) = length mem"
  by simp

lemma stored_before:
  "dst + n \<le> length mem \<Longrightarrow> k \<le> dst \<Longrightarrow>
   take k (take dst mem @ take n src @ drop (dst + n) mem) = take k mem"
  by (simp add: min_absorb1)

lemma stored_at:
  "n \<le> length src \<Longrightarrow> dst + n \<le> length mem \<Longrightarrow>
   take n (drop dst (take dst mem @ take n src @ drop (dst + n) mem)) = take n src"
  by simp

lemma stored_after:
  "n \<le> length src \<Longrightarrow> dst + n \<le> length mem \<Longrightarrow> dst + n \<le> k \<Longrightarrow>
   drop k (take dst mem @ take n src @ drop (dst + n) mem) = drop k mem"
  by (simp add: min_absorb2)

lemma writeToBuffer_whole:
  assumes "m_mapped b = Some (p, len)"
    and "unat (m_bufferSize b) \<le> length data"
    and "unat (m_bufferSize b) \<le> len"
    and "p + unat (m_bufferSize b) \<le> length (mem_bytes b)"
  shows "writeToBuffer b data VK_WHOLE_SIZE offset =
         Inr (b\<lparr>mem_bytes := take p (mem_bytes b) @ take (unat (m_bufferSize b)) data
                      @ drop (p + unat (m_bufferSize b)) (mem_bytes b)\<rparr>)"
  using assms by (simp add: writeToBuffer_def memcpy_Some)

lemma writeToBuffer_part:
  assumes "m_mapped b = Some (p, len)"
    and "sz \<noteq> VK_WHOLE_SIZE"
    and "unat sz \<le> length data"
    and "unat offset + unat sz \<le> len"
    and "p + unat offset + unat sz \<le> length (mem_bytes b)"
  shows "writeToBuffer b data sz offset =
         Inr (b\<lparr>mem_bytes := take (p + unat offset) (mem_bytes b) @ take (unat sz) data
                      @ drop (p + unat offset + unat sz) (mem_bytes b)\<rparr>)"
  using assms by (simp add: writeToBuffer_def memcpy_Some)


section \<open>Properties of the index helpers\<close>

lemma sint_index_less: "sint (i :: 32 word) < 2 ^ 31"
  using sint_lt [of i] by simp

lemma nat_sint_index_less:
  assumes "0 \<le> sint (i :: 32 word)"
  shows "nat (sint i) < 2 ^ 64"
proof -
  have "nat (sint i) < 2 ^ 31"
    using sint_index_less [of i] assms by (simp add: nat_less_iff)
  moreover have "(2::nat) ^ 31 < 2 ^ 64" by simp
  ultimately show ?thesis by (rule less_trans)
qed

lemma scast_index_of_nat:
  "0 \<le> sint (i :: 32 word) \<Longrightarrow> (scast i :: 64 word) = word_of_nat (nat (sint i))"
  by (simp only: scast_eq word_of_int_nat)

lemma unat_scast_index:
  "0 \<le> sint (i :: 32 word) \<Longrightarrow> unat (scast i :: 64 word) = nat (sint i)"
  using nat_sint_index_less [of i] by (simp only: scast_index_of_nat unat_of_nat) simp

lemma valid_index_slot:
  assumes ok: "Buffer_layout_ok b" and v: "valid_index b i"
  shows "nat (sint i) * unat (m_alignmentSize b) + unat (m_alignmentSize b)
         \<le> unat (m_bufferSize b)"
proof -
  have "Suc (nat (sint i)) \<le> unat (m_instanceCount b)"
    using v by (simp add: valid_index_def)
  then have "Suc (nat (sint i)) * unat (m_alignmentSize b)
             \<le> unat (m_instanceCount b) * unat (m_alignmentSize b)"
    by (rule mult_le_mono1)
  then show ?thesis using ok by (simp add: Buffer_layout_ok_def mult.commute)
qed

lemma unat_index_offset:
  assumes ok: "Buffer_layout_ok b" and v: "valid_index b i"
  shows "unat (index_offset b i) = nat (sint i) * unat (m_alignmentSize b)"
proof -
  have "nat (sint i) * unat (m_alignmentSize b) \<le> unat (m_bufferSize b)"
    using valid_index_slot [OF ok v] by simp
  moreover have "unat (m_bufferSize b) < 2 ^ 64"
    using unsigned_less [of "m_bufferSize b"] by simp
  ultimately have "unat (scast i :: 64 word) * unat (m_alignmentSize b) < 2 ^ 64"
    using v by (simp add: valid_index_def unat_scast_index)
  then have "unat (scast i * m_alignmentSize b) = unat (scast i :: 64 word) * unat (m_alignmentSize b)"
    by (simp add: unat_mult_lem [THEN iffD1])
  then show ?thesis using v by (simp add: index_offset_def valid_index_def unat_scast_index)
qed


lemma valid_index_distinct:
  assumes "valid_index b i" "valid_index b j" "j \<noteq> i"
  shows "nat (sint j) \<noteq> nat (sint i)"
proof
  assume "nat (sint j) = nat (sint i)"
  moreover have "0 \<le> sint i" "0 \<le> sint j"
    using assms(1,2) by (simp_all add: valid_index_def)
  ultimately have "sint j = sint i" by linarith
  then have "j = i" by (rule signed_word_eqI)
  then show False using assms(3) by simp
qed

lemma whole_size_unat: "unat VK_WHOLE_SIZE = 2 ^ 64 - 1"
  by (simp add: VK_WHOLE_SIZE_def unsigned_minus_1_eq_mask mask_eq_exp_minus_1)

text \<open>
  A stride of \<open>2^64 - 1\<close> bytes leaves room for one element only.
\<close>

lemma whole_stride_single:
  assumes ok: "Buffer_layout_ok b" and v: "valid_index b i"
    and w: "m_alignmentSize b = VK_WHOLE_SIZE"
  shows "nat (sint i) = 0" and "unat (m_bufferSize b) = unat (m_alignmentSize b)"
proof -
  let ?a = "unat (m_alignmentSize b)" and ?I = "nat (sint i)"
  have a: "?a = 2 ^ 64 - 1" using w by (simp add: whole_size_unat)
  have "?I * ?a + ?a \<le> unat (m_bufferSize b)" by (rule valid_index_slot [OF ok v])
  moreover have "unat (m_bufferSize b) < 2 ^ 64"
    using unsigned_less [of "m_bufferSize b"] by simp
  ultimately have lt: "?I * ?a + ?a < 2 ^ 64" by (rule le_less_trans)
  show I0: "?I = 0"
  proof (rule ccontr)
    assume "?I \<noteq> 0"
    then have "1 * ?a \<le> ?I * ?a" by (intro mult_le_mono1) simp
    then have "?a + ?a \<le> ?I * ?a + ?a" by simp
    then have "?a + ?a < 2 ^ 64" using lt by (rule le_less_trans)
    then show False unfolding a by simp
  qed
  have c: "unat (m_instanceCount b) = 1"
  proof -
    have c1: "1 \<le> unat (m_instanceCount b)" using v by (simp add: valid_index_def)
    have "unat (m_instanceCount b) * ?a < 2 ^ 64"
      using ok unsigned_less [of "m_bufferSize b"] by (simp add: Buffer_layout_ok_def mult.commute)
    have "\<not> 2 \<le> unat (m_instanceCount b)"
    proof
      assume "2 \<le> unat (m_instanceCount b)"
      then have "2 * ?a \<le> unat (m_instanceCount b) * ?a" by (rule mult_le_mono1)
      then have "2 * ?a < 2 ^ 64"
        using \<open>unat (m_instanceCount b) * ?a < 2 ^ 64\<close> by (rule le_less_trans)
      then show False unfolding a by simp
    qed
    then show ?thesis using c1 by linarith
  qed
  show "unat (m_bufferSize b) = ?a"
    using ok c by (simp add: Buffer_layout_ok_def)
qed


lemma instance_fits_stride:
  "Buffer_layout_ok b \<Longrightarrow> unat (m_instanceSize b) \<le> unat (m_alignmentSize b)"
  by (simp add: Buffer_layout_ok_def word_le_nat_alt)

lemma writeToIndex_stores:
  assumes ok: "Buffer_layout_ok b" and v: "valid_index b i"
    and mapped: "m_mapped b = Some (0, len)" and cover: "unat (m_bufferSize b) \<le> len"
    and data: "unat (m_instanceSize b) \<le> length data"
  shows "writeToIndex b data i =
         Inr (b\<lparr>mem_bytes :=
                take (nat (sint i) * unat (m_alignmentSize b)) (mem_bytes b)
                @ take (unat (m_instanceSize b)) data
                @ drop (nat (sint i) * unat (m_alignmentSize b) + unat (m_instanceSize b))
                    (mem_bytes b)\<rparr>)"
proof -
  let ?a = "unat (m_alignmentSize b)" and ?I = "nat (sint i)" and ?n = "unat (m_instanceSize b)"
  have slot: "?I * ?a + ?a \<le> unat (m_bufferSize b)" by (rule valid_index_slot [OF ok v])
  have fits: "?n \<le> ?a" by (rule instance_fits_stride [OF ok])
  have mem: "unat (m_bufferSize b) \<le> length (mem_bytes b)"
    using ok by (simp add: Buffer_layout_ok_def)
  have off: "unat (index_offset b i) = ?I * ?a" by (rule unat_index_offset [OF ok v])
  show ?thesis
  proof (cases "m_instanceSize b = VK_WHOLE_SIZE")
    case False
    have "unat (index_offset b i) + ?n \<le> len" using off slot fits cover by linarith
    moreover have "0 + unat (index_offset b i) + ?n \<le> length (mem_bytes b)"
      using off slot fits mem by linarith
    ultimately show ?thesis
      using writeToBuffer_part [OF mapped False data, of "index_offset b i"] off
      by (simp add: writeToIndex_def)
  next
    case True
    have "?a < 2 ^ 64" using unsigned_less [of "m_alignmentSize b"] by simp
    then have "?a = unat VK_WHOLE_SIZE" using fits True by (simp add: whole_size_unat)
    then have w: "m_alignmentSize b = VK_WHOLE_SIZE" by (rule unsigned_word_eqI)
    have I0: "?I = 0" and bs: "unat (m_bufferSize b) = ?a"
      using whole_stride_single [OF ok v w] by simp_all
    have n: "unat (m_bufferSize b) = ?n" using bs w True by simp
    have "unat (m_bufferSize b) \<le> length data" using data n by simp
    moreover have "0 + unat (m_bufferSize b) \<le> length (mem_bytes b)" using mem by simp
    ultimately show ?thesis
      using writeToBuffer_whole [OF mapped _ cover, of data "index_offset b i"] I0 n True
      by (simp add: writeToIndex_def)
  qed
qed

lemma read_index:
  assumes ok: "Buffer_layout_ok b" and v: "valid_index b i"
  shows "read_descriptor b (descriptorInfoForIndex b i) =
         Some (take (unat (m_alignmentSize b))
                 (drop (nat (sint i) * unat (m_alignmentSize b)) (mem_bytes b)))"
proof -
  let ?a = "unat (m_alignmentSize b)" and ?I = "nat (sint i)"
  have slot: "?I * ?a + ?a \<le> unat (m_bufferSize b)" by (rule valid_index_slot [OF ok v])
  have mem: "unat (m_bufferSize b) \<le> length (mem_bytes b)"
    using ok by (simp add: Buffer_layout_ok_def)
  have off: "unat (index_offset b i) = ?I * ?a" by (rule unat_index_offset [OF ok v])
  have inb: "?I * ?a + ?a \<le> length (mem_bytes b)" using slot mem by linarith
  show ?thesis
  proof (cases "m_alignmentSize b = VK_WHOLE_SIZE")
    case False
    then show ?thesis
      using inb
      by (simp add: read_descriptor_def descriptorInfoForIndex_def descriptorInfo_def Let_def off)
  next
    case True
    have I0: "?I = 0" and bs: "unat (m_bufferSize b) = ?a"
      using whole_stride_single [OF ok v True] by simp_all
    have "unat (m_bufferSize b) \<le> length (mem_bytes b)" by (rule mem)
    then show ?thesis
      using True I0 bs
      by (simp add: read_descriptor_def descriptorInfoForIndex_def descriptorInfo_def Let_def off)
  qed
qed

lemma layout_ok_mem_update:
  "Buffer_layout_ok b \<Longrightarrow> length m = length (mem_bytes b) \<Longrightarrow>
   Buffer_layout_ok (b\<lparr>mem_bytes := m\<rparr>)"
  by (simp add: Buffer_layout_ok_def)

lemma valid_index_mem_update: "valid_index (b\<lparr>mem_bytes := m\<rparr>) i = valid_index b i"
  by (simp add: valid_index_def)


lemma stored_elsewhere:
  assumes "n \<le> length src" and "dst + n \<le> length mem"
    and "k + len \<le> dst \<or> dst + n \<le> k"
  shows "take len (drop k (take dst mem @ take n src @ drop (dst + n) mem))
         = take len (drop k mem)"
proof -
  let ?m = "take dst mem @ take n src @ drop (dst + n) mem"
  from assms(3) show ?thesis
  proof
    assume below: "k + len \<le> dst"
    have "take len (drop k ?m) = drop k (take (len + k) ?m)" by (simp only: take_drop)
    also have "take (len + k) ?m = take (len + k) mem"
      using stored_before [OF assms(2), of "len + k" src] below by (simp add: add.commute)
    also have "drop k (take (len + k) mem) = take len (drop k mem)" by (simp only: take_drop)
    finally show ?thesis .
  next
    assume "dst + n \<le> k"
    then have "drop k ?m = drop k mem" by (rule stored_after [OF assms(1,2)])
    then show ?thesis by simp
  qed
qed

text \<open>
  C4, as far as it holds: for a buffer whose layout did not wrap around, mapped from
  offset 0 over the whole buffer, and a valid index \<open>i\<close>, \<open>writeToIndex\<close> stores the
  first \<open>instanceSize\<close> bytes of the data at byte \<open>i * alignmentSize\<close> and nothing else.
  A read over \<open>descriptorInfoForIndex i\<close> gives \<open>alignmentSize\<close> bytes that start with
  the written ones, and the read at every other valid index gives what it gave before.
\<close>

theorem writeToIndex_read_back:
  assumes "Buffer_layout_ok b" and "valid_index b i"
    and "m_mapped b = Some (0, len)" and "unat (m_bufferSize b) \<le> len"
    and "unat (m_instanceSize b) \<le> length data"
  shows "\<exists>m. writeToIndex b data i = Inr (b\<lparr>mem_bytes := m\<rparr>) \<and>
           m = take (nat (sint i) * unat (m_alignmentSize b)) (mem_bytes b)
               @ take (unat (m_instanceSize b)) data
               @ drop (nat (sint i) * unat (m_alignmentSize b) + unat (m_instanceSize b))
                   (mem_bytes b) \<and>
           (\<exists>bytes.
              read_descriptor (b\<lparr>mem_bytes := m\<rparr>)
                (descriptorInfoForIndex (b\<lparr>mem_bytes := m\<rparr>) i) = Some bytes \<and>
              length bytes = unat (m_alignmentSize b) \<and>
              take (unat (m_instanceSize b)) bytes = take (unat (m_instanceSize b)) data) \<and>
           (\<forall>j. valid_index b j \<and> j \<noteq> i \<longrightarrow>
              read_descriptor b (descriptorInfoForIndex b j) \<noteq> None \<and>
              read_descriptor (b\<lparr>mem_bytes := m\<rparr>)
                (descriptorInfoForIndex (b\<lparr>mem_bytes := m\<rparr>) j)
              = read_descriptor b (descriptorInfoForIndex b j))"
proof -
  let ?a = "unat (m_alignmentSize b)" and ?I = "nat (sint i)" and ?n = "unat (m_instanceSize b)"
  let ?mem = "mem_bytes b"
  define m where "m = take (?I * ?a) ?mem @ take ?n data @ drop (?I * ?a + ?n) ?mem"
  let ?b' = "b\<lparr>mem_bytes := m\<rparr>"
  note ok = assms(1) and v = assms(2) and data = assms(5)
  have slot: "?I * ?a + ?a \<le> unat (m_bufferSize b)" by (rule valid_index_slot [OF ok v])
  have fits: "?n \<le> ?a" by (rule instance_fits_stride [OF ok])
  have mem: "unat (m_bufferSize b) \<le> length ?mem"
    using ok by (simp add: Buffer_layout_ok_def)
  have inb: "?I * ?a + ?n \<le> length ?mem" using slot fits mem by linarith
  have len_m: "length m = length ?mem"
    unfolding m_def by (rule stored_length [OF data inb])
  have ok': "Buffer_layout_ok ?b'" by (rule layout_ok_mem_update [OF ok len_m])
  have wr: "writeToIndex b data i = Inr ?b'"
    unfolding m_def by (rule writeToIndex_stores [OF ok v assms(3,4) data])
  have read': "read_descriptor ?b' (descriptorInfoForIndex ?b' j)
               = Some (take ?a (drop (nat (sint j) * ?a) m))" if "valid_index b j" for j
    using read_index [OF ok', of j] that by (simp add: valid_index_mem_update)
  have at_i: "take ?n (take ?a (drop (?I * ?a) m)) = take ?n data"
  proof -
    have "take ?n (take ?a (drop (?I * ?a) m)) = take ?n (drop (?I * ?a) m)"
      using fits by (simp add: min_absorb1)
    also have "\<dots> = take ?n data"
      unfolding m_def by (rule stored_at [OF data inb])
    finally show ?thesis .
  qed
  have len_i: "length (take ?a (drop (?I * ?a) m)) = ?a"
    using slot mem len_m by simp
  have others: "read_descriptor b (descriptorInfoForIndex b j) \<noteq> None \<and>
                read_descriptor ?b' (descriptorInfoForIndex ?b' j)
                = read_descriptor b (descriptorInfoForIndex b j)"
    if vj: "valid_index b j" and ne: "j \<noteq> i" for j
  proof -
    let ?J = "nat (sint j)"
    have "?J \<noteq> ?I" by (rule valid_index_distinct [OF v vj ne])
    then consider "?J < ?I" | "?I < ?J" by linarith
    then have "?J * ?a + ?a \<le> ?I * ?a \<or> ?I * ?a + ?n \<le> ?J * ?a"
    proof cases
      case 1
      then have "Suc ?J \<le> ?I" by (rule Suc_leI)
      then have "Suc ?J * ?a \<le> ?I * ?a" by (rule mult_le_mono1)
      then show ?thesis by simp
    next
      case 2
      then have "Suc ?I \<le> ?J" by (rule Suc_leI)
      then have "Suc ?I * ?a \<le> ?J * ?a" by (rule mult_le_mono1)
      then show ?thesis using fits by simp
    qed
    then have "take ?a (drop (?J * ?a) m) = take ?a (drop (?J * ?a) ?mem)"
      unfolding m_def by (rule stored_elsewhere [OF data inb])
    then show ?thesis
      using read' [OF vj] read_index [OF ok vj] by simp
  qed
  show ?thesis
  proof (rule exI [of _ m], intro conjI)
    show "writeToIndex b data i = Inr ?b'" by (rule wr)
    show "m = take (?I * ?a) ?mem @ take ?n data @ drop (?I * ?a + ?n) ?mem" by (rule m_def)
    show "\<exists>bytes. read_descriptor ?b' (descriptorInfoForIndex ?b' i) = Some bytes \<and>
            length bytes = ?a \<and> take ?n bytes = take ?n data"
      using read' [OF v] at_i len_i by simp
    show "\<forall>j. valid_index b j \<and> j \<noteq> i \<longrightarrow>
            read_descriptor b (descriptorInfoForIndex b j) \<noteq> None \<and>
            read_descriptor ?b' (descriptorInfoForIndex ?b' j)
            = read_descriptor b (descriptorInfoForIndex b j)"
      using others by blast
  qed
qed


lemma unat_ucast_count: "unat (ucast (c :: 32 word) :: 64 word) = unat c"
proof -
  have "uint (ucast c :: 64 word) = uint c"
    by (rule uint_up_ucast) (simp add: is_up)
  then show ?thesis by (simp only: unat_eq_nat_uint)
qed

lemma getAlignment_listed_ge:
  assumes "minOffsetAlignment \<in> {0, 1, 4, 16, 256}" and "0 < instanceSize"
    and "unat instanceSize + unat minOffsetAlignment \<le> 2 ^ 64"
  shows "instanceSize \<le> getAlignment instanceSize minOffsetAlignment"
proof -
  from listed_alignment_cases [OF assms(1)]
  consider "minOffsetAlignment = 0" | n where "n < 64" and "minOffsetAlignment = 2 ^ n"
    by blast
  then show ?thesis
  proof cases
    case 1
    then show ?thesis by (simp add: getAlignment_zero)
  next
    case 2
    then show ?thesis
      using getAlignment_pow2_ge [OF 2(1) _ assms(2)] assms(3) by (simp add: unat_pow2_word)
  qed
qed

text \<open>
  The constructor gives a well-formed buffer when neither the alignment nor the
  product wraps around and \<open>createBuffer\<close> provides at least \<open>m_bufferSize\<close> bytes.
\<close>

lemma Buffer_ctor_layout_ok:
  assumes "minOffsetAlignment \<in> {0, 1, 4, 16, 256}" and "0 < instanceSize"
    and "unat instanceSize + unat minOffsetAlignment \<le> 2 ^ 64"
    and "unat (getAlignment instanceSize minOffsetAlignment) * unat instanceCount < 2 ^ 64"
    and "unat (getAlignment instanceSize minOffsetAlignment) * unat instanceCount
         \<le> length (snd (snd created))"
  shows "Buffer_layout_ok (Buffer_ctor created instanceSize instanceCount minOffsetAlignment)"
proof -
  let ?a = "getAlignment instanceSize minOffsetAlignment"
  have "unat ?a * unat (ucast instanceCount :: 64 word) < 2 ^ 64"
    using assms(4) by (simp add: unat_ucast_count)
  then have "unat (?a * ucast instanceCount) = unat ?a * unat (ucast instanceCount :: 64 word)"
    by (simp add: unat_mult_lem [THEN iffD1])
  then have prod: "unat (?a * ucast instanceCount) = unat ?a * unat instanceCount"
    by (simp add: unat_ucast_count)
  have "instanceSize \<le> ?a" by (rule getAlignment_listed_ge [OF assms(1,2,3)])
  then show ?thesis
    using prod assms(5) by (simp add: Buffer_layout_ok_def Buffer_ctor_def Let_def)
qed

lemma whole_mapped_layout_ok: "Buffer_layout_ok whole_mapped_buffer"
  by (simp add: Buffer_layout_ok_def whole_mapped_buffer_eq)

lemma whole_mapped_valid_1: "valid_index whole_mapped_buffer 1"
  by (simp add: valid_index_def whole_mapped_buffer_eq)

theorem writeToIndex_read_back_witness:
  "Buffer_layout_ok whole_mapped_buffer \<and> valid_index whole_mapped_buffer 1 \<and>
   valid_index whole_mapped_buffer 0 \<and>
   m_mapped whole_mapped_buffer = Some (0, 8) \<and>
   writeToIndex whole_mapped_buffer [7, 8, 9] 1
     = Inr (whole_mapped_buffer\<lparr>mem_bytes := [0, 0, 0, 0, 7, 8, 9, 0]\<rparr>) \<and>
   read_descriptor (whole_mapped_buffer\<lparr>mem_bytes := [0, 0, 0, 0, 7, 8, 9, 0]\<rparr>)
     (descriptorInfoForIndex (whole_mapped_buffer\<lparr>mem_bytes := [0, 0, 0, 0, 7, 8, 9, 0]\<rparr>) 1)
     = Some [7, 8, 9, 0] \<and>
   read_descriptor (whole_mapped_buffer\<lparr>mem_bytes := [0, 0, 0, 0, 7, 8, 9, 0]\<rparr>)
     (descriptorInfoForIndex (whole_mapped_buffer\<lparr>mem_bytes := [0, 0, 0, 0, 7, 8, 9, 0]\<rparr>) 0)
     = read_descriptor whole_mapped_buffer (descriptorInfoForIndex whole_mapped_buffer 0)"
proof -
  have m: "m_mapped whole_mapped_buffer = Some (0, 8)"
    by (simp add: whole_mapped_buffer_eq)
  have c: "unat (m_bufferSize whole_mapped_buffer) \<le> 8"
    by (simp add: whole_mapped_buffer_eq)
  have d: "unat (m_instanceSize whole_mapped_buffer) \<le> length [7, 8, 9 :: byte]"
    by (simp add: whole_mapped_buffer_eq)
  have v0: "valid_index whole_mapped_buffer 0"
    by (simp add: valid_index_def whole_mapped_buffer_eq)
  from writeToIndex_read_back [OF whole_mapped_layout_ok whole_mapped_valid_1 m c d]
  obtain m where w: "writeToIndex whole_mapped_buffer [7, 8, 9] 1
                     = Inr (whole_mapped_buffer\<lparr>mem_bytes := m\<rparr>)"
    and mm: "m = take (nat (sint (1 :: 32 word)) * unat (m_alignmentSize whole_mapped_buffer))
                   (mem_bytes whole_mapped_buffer)
                 @ take (unat (m_instanceSize whole_mapped_buffer)) [7, 8, 9]
                 @ drop (nat (sint (1 :: 32 word)) * unat (m_alignmentSize whole_mapped_buffer)
                         + unat (m_instanceSize whole_mapped_buffer))
                     (mem_bytes whole_mapped_buffer)"
    and others: "\<forall>j. valid_index whole_mapped_buffer j \<and> j \<noteq> 1 \<longrightarrow>
              read_descriptor whole_mapped_buffer (descriptorInfoForIndex whole_mapped_buffer j) \<noteq> None \<and>
              read_descriptor (whole_mapped_buffer\<lparr>mem_bytes := m\<rparr>)
                (descriptorInfoForIndex (whole_mapped_buffer\<lparr>mem_bytes := m\<rparr>) j)
              = read_descriptor whole_mapped_buffer (descriptorInfoForIndex whole_mapped_buffer j)"
    by blast
  have m_eq: "m = [0, 0, 0, 0, 7, 8, 9, 0]"
    unfolding mm by (simp add: whole_mapped_buffer_eq)
  have r1: "read_descriptor (whole_mapped_buffer\<lparr>mem_bytes := [0, 0, 0, 0, 7, 8, 9, 0]\<rparr>)
     (descriptorInfoForIndex (whole_mapped_buffer\<lparr>mem_bytes := [0, 0, 0, 0, 7, 8, 9, 0]\<rparr>) 1)
     = Some [7, 8, 9, 0]"
    by (simp add: read_descriptor_def descriptorInfoForIndex_def descriptorInfo_def
        index_offset_def whole_mapped_buffer_eq VK_WHOLE_SIZE_def Let_def)
  show ?thesis
    using whole_mapped_layout_ok whole_mapped_valid_1 v0 m w others r1
    unfolding m_eq by simp
qed

text \<open>
  C4 as stated fails for a buffer that is mapped from another offset than 0.
  \<open>writeToIndex\<close> writes relative to the mapped pointer, \<open>descriptorInfoForIndex\<close>
  reports offsets relative to the start of the buffer. After \<open>map (VK_WHOLE_SIZE, 4)\<close>
  on the example buffer, \<open>writeToIndex (data, 0)\<close> puts the three bytes at bytes 4 to 6:
  the read for index 0 does not see them, and the read for index 1 has changed.
\<close>

theorem writeToIndex_offset_mapping:
  "map_buffer accept_map example_buffer VK_WHOLE_SIZE 4 = Inr (VK_SUCCESS, offset_mapped_buffer) \<and>
   valid_index offset_mapped_buffer 0 \<and> valid_index offset_mapped_buffer 1 \<and>
   writeToIndex offset_mapped_buffer [1, 2, 3] 0
     = Inr (offset_mapped_buffer\<lparr>mem_bytes := [0, 0, 0, 0, 1, 2, 3, 0]\<rparr>) \<and>
   read_descriptor (offset_mapped_buffer\<lparr>mem_bytes := [0, 0, 0, 0, 1, 2, 3, 0]\<rparr>)
     (descriptorInfoForIndex (offset_mapped_buffer\<lparr>mem_bytes := [0, 0, 0, 0, 1, 2, 3, 0]\<rparr>) 0)
     = Some [0, 0, 0, 0] \<and>
   read_descriptor offset_mapped_buffer (descriptorInfoForIndex offset_mapped_buffer 1)
     = Some [0, 0, 0, 0] \<and>
   read_descriptor (offset_mapped_buffer\<lparr>mem_bytes := [0, 0, 0, 0, 1, 2, 3, 0]\<rparr>)
     (descriptorInfoForIndex (offset_mapped_buffer\<lparr>mem_bytes := [0, 0, 0, 0, 1, 2, 3, 0]\<rparr>) 1)
     = Some [1, 2, 3, 0]"
  by (simp add: map_example_offset)
     (simp add: offset_mapped_buffer_eq valid_index_def writeToIndex_def writeToBuffer_def
       memcpy_def read_descriptor_def descriptorInfoForIndex_def descriptorInfo_def
       index_offset_def VK_WHOLE_SIZE_def Let_def)


section \<open>Properties of Buffer::writeToBuffer, flush and invalidate\<close>

text \<open>
  C6, as far as it holds. With a mapping of \<open>len\<close> bytes from byte \<open>p\<close> of the allocation:
  for the size \<open>VK_WHOLE_SIZE\<close>, \<open>writeToBuffer\<close> stores the first \<open>m_bufferSize\<close>
  bytes of the data from the start of the mapped range on, whatever the offset argument
  is; for any other size it stores the first \<open>size\<close> bytes of the data \<open>offset\<close> bytes
  into the mapped range. Every other byte and every field of the object stay as they
  were. The copies are those that stay inside the data and the mapped range. The
  constructor sets \<open>m_bufferSize\<close> to \<open>alignmentSize * instanceCount\<close>.
\<close>

theorem writeToBuffer_copies:
  assumes "m_mapped b = Some (p, len)"
  shows "(unat (m_bufferSize b) \<le> length data \<and> unat (m_bufferSize b) \<le> len \<and>
          p + unat (m_bufferSize b) \<le> length (mem_bytes b) \<longrightarrow>
            (\<exists>m. writeToBuffer b data VK_WHOLE_SIZE offset = Inr (b\<lparr>mem_bytes := m\<rparr>) \<and>
                 length m = length (mem_bytes b) \<and>
                 take p m = take p (mem_bytes b) \<and>
                 take (unat (m_bufferSize b)) (drop p m) = take (unat (m_bufferSize b)) data \<and>
                 drop (p + unat (m_bufferSize b)) m
                   = drop (p + unat (m_bufferSize b)) (mem_bytes b))) \<and>
         (sz \<noteq> VK_WHOLE_SIZE \<and> unat sz \<le> length data \<and> unat offset + unat sz \<le> len \<and>
          p + unat offset + unat sz \<le> length (mem_bytes b) \<longrightarrow>
            (\<exists>m. writeToBuffer b data sz offset = Inr (b\<lparr>mem_bytes := m\<rparr>) \<and>
                 length m = length (mem_bytes b) \<and>
                 take (p + unat offset) m = take (p + unat offset) (mem_bytes b) \<and>
                 take (unat sz) (drop (p + unat offset) m) = take (unat sz) data \<and>
                 drop (p + unat offset + unat sz) m
                   = drop (p + unat offset + unat sz) (mem_bytes b))) \<and>
         m_bufferSize (Buffer_ctor created instanceSize instanceCount minOffsetAlignment)
           = getAlignment instanceSize minOffsetAlignment * ucast instanceCount"
proof (intro conjI impI)
  assume h: "unat (m_bufferSize b) \<le> length data \<and> unat (m_bufferSize b) \<le> len \<and>
             p + unat (m_bufferSize b) \<le> length (mem_bytes b)"
  let ?n = "unat (m_bufferSize b)"
  let ?m = "take p (mem_bytes b) @ take ?n data @ drop (p + ?n) (mem_bytes b)"
  have "writeToBuffer b data VK_WHOLE_SIZE offset = Inr (b\<lparr>mem_bytes := ?m\<rparr>)"
    using writeToBuffer_whole [OF assms, of data offset] h by simp
  moreover have "length ?m = length (mem_bytes b)"
    using h by (intro stored_length) simp_all
  moreover have "take p ?m = take p (mem_bytes b)"
    using h by (intro stored_before) simp_all
  moreover have "take ?n (drop p ?m) = take ?n data"
    using h by (intro stored_at) simp_all
  moreover have "drop (p + ?n) ?m = drop (p + ?n) (mem_bytes b)"
    using h by (intro stored_after) simp_all
  ultimately show "\<exists>m. writeToBuffer b data VK_WHOLE_SIZE offset = Inr (b\<lparr>mem_bytes := m\<rparr>) \<and>
                 length m = length (mem_bytes b) \<and>
                 take p m = take p (mem_bytes b) \<and>
                 take ?n (drop p m) = take ?n data \<and>
                 drop (p + ?n) m = drop (p + ?n) (mem_bytes b)"
    by blast
next
  assume h: "sz \<noteq> VK_WHOLE_SIZE \<and> unat sz \<le> length data \<and> unat offset + unat sz \<le> len \<and>
          p + unat offset + unat sz \<le> length (mem_bytes b)"
  let ?n = "unat sz" and ?d = "p + unat offset"
  let ?m = "take ?d (mem_bytes b) @ take ?n data @ drop (?d + ?n) (mem_bytes b)"
  have "writeToBuffer b data sz offset = Inr (b\<lparr>mem_bytes := ?m\<rparr>)"
    using writeToBuffer_part [OF assms, of sz data offset] h by simp
  moreover have "length ?m = length (mem_bytes b)"
    using h by (intro stored_length) simp_all
  moreover have "take ?d ?m = take ?d (mem_bytes b)"
    using h by (intro stored_before) simp_all
  moreover have "take ?n (drop ?d ?m) = take ?n data"
    using h by (intro stored_at) simp_all
  moreover have "drop (?d + ?n) ?m = drop (?d + ?n) (mem_bytes b)"
    using h by (intro stored_after) simp_all
  ultimately show "\<exists>m. writeToBuffer b data sz offset = Inr (b\<lparr>mem_bytes := m\<rparr>) \<and>
                 length m = length (mem_bytes b) \<and>
                 take ?d m = take ?d (mem_bytes b) \<and>
                 take ?n (drop ?d m) = take ?n data \<and>
                 drop (?d + ?n) m = drop (?d + ?n) (mem_bytes b)"
    by blast
next
  show "m_bufferSize (Buffer_ctor created instanceSize instanceCount minOffsetAlignment)
           = getAlignment instanceSize minOffsetAlignment * ucast instanceCount"
    by (simp add: Buffer_ctor_def Let_def)
qed

theorem writeToBuffer_copies_witness:
  "m_mapped whole_mapped_buffer = Some (0, 8) \<and>
   unat (m_bufferSize whole_mapped_buffer) = 8 \<and>
   (2 :: 64 word) \<noteq> VK_WHOLE_SIZE \<and>
   writeToBuffer whole_mapped_buffer [1, 2, 3, 4, 5, 6, 7, 8] VK_WHOLE_SIZE 3
     = Inr (whole_mapped_buffer\<lparr>mem_bytes := [1, 2, 3, 4, 5, 6, 7, 8]\<rparr>) \<and>
   writeToBuffer whole_mapped_buffer [1, 2, 3, 4, 5, 6, 7, 8] 2 3
     = Inr (whole_mapped_buffer\<lparr>mem_bytes := [0, 0, 0, 1, 2, 0, 0, 0]\<rparr>)"
  using writeToBuffer_copies [of whole_mapped_buffer 0 8 "[1, 2, 3, 4, 5, 6, 7, 8]" 3 2]
  by (simp add: whole_mapped_buffer_eq writeToBuffer_def memcpy_def VK_WHOLE_SIZE_def)

text \<open>
  C6 as stated fails for a mapping that is shorter than the copy. After
  \<open>map (VK_WHOLE_SIZE, 4)\<close> the example buffer of 8 bytes has 4 bytes mapped, from byte 4
  on. The copy for \<open>VK_WHOLE_SIZE\<close> takes \<open>m_bufferSize = 8\<close> bytes and runs past the end
  of the mapped range and of the allocation; so does a copy of 2 bytes at offset 3.
  Neither stores the bytes the claim promises.
\<close>

theorem writeToBuffer_overruns_mapping:
  "map_buffer accept_map example_buffer VK_WHOLE_SIZE 4 = Inr (VK_SUCCESS, offset_mapped_buffer) \<and>
   m_mapped offset_mapped_buffer = Some (4, 4) \<and>
   unat (m_bufferSize offset_mapped_buffer) = 8 \<and>
   length (mem_bytes offset_mapped_buffer) = 8 \<and>
   writeToBuffer offset_mapped_buffer [1, 2, 3, 4, 5, 6, 7, 8] VK_WHOLE_SIZE 0
     = Inl (UndefinedBehaviour ''memcpy out of bounds'') \<and>
   (2 :: 64 word) \<noteq> VK_WHOLE_SIZE \<and>
   writeToBuffer offset_mapped_buffer [1, 2, 3, 4, 5, 6, 7, 8] 2 3
     = Inl (UndefinedBehaviour ''memcpy out of bounds'')"
  by (simp add: map_example_offset)
     (simp add: offset_mapped_buffer_eq writeToBuffer_def memcpy_def VK_WHOLE_SIZE_def)

text \<open>
  C5, as far as it holds. \<open>writeToBuffer\<close> asserts the mapping: with a mapping its
  assertion cannot fail, without one the call stops at the assertion and nothing is
  copied. \<open>flush\<close> and \<open>invalidate\<close> do not look at the mapping: mapped or not, they
  pass the range to the driver and return its answer.
\<close>

theorem mapping_checked_by_writeToBuffer_only:
  "(m_mapped b \<noteq> None \<longrightarrow> (\<forall>msg. writeToBuffer b data sz offset \<noteq> Inl (AssertionFailed msg))) \<and>
   (m_mapped b = None \<longrightarrow>
      writeToBuffer b data sz offset = Inl (AssertionFailed ''Cannot copy to unmapped buffer'')) \<and>
   flush drv b sz offset =
     Inr (drv \<lparr> range_memory = m_memory b, range_offset = offset, range_size = sz \<rparr>,
          b\<lparr>vk_calls := vk_calls b @ [VkFlushMappedMemoryRanges
                 \<lparr> range_memory = m_memory b, range_offset = offset, range_size = sz \<rparr>]\<rparr>) \<and>
   invalidate drv b sz offset =
     Inr (drv \<lparr> range_memory = m_memory b, range_offset = offset, range_size = sz \<rparr>,
          b\<lparr>vk_calls := vk_calls b @ [VkInvalidateMappedMemoryRanges
                 \<lparr> range_memory = m_memory b, range_offset = offset, range_size = sz \<rparr>]\<rparr>)"
  by (auto simp add: writeToBuffer_def flush_def invalidate_def Let_def
      split: option.splits sum.splits)

theorem mapping_checked_by_writeToBuffer_only_witness:
  "m_mapped example_buffer = None \<and> m_mapped whole_mapped_buffer \<noteq> None \<and>
   writeToBuffer example_buffer [1, 2, 3] 3 0
     = Inl (AssertionFailed ''Cannot copy to unmapped buffer'') \<and>
   writeToBuffer whole_mapped_buffer [1, 2, 3] 3 0
     \<noteq> Inl (AssertionFailed ''Cannot copy to unmapped buffer'')"
  using mapping_checked_by_writeToBuffer_only [of example_buffer "[1, 2, 3]" 3 0]
    mapping_checked_by_writeToBuffer_only [of whole_mapped_buffer "[1, 2, 3]" 3 0]
  by (simp add: example_buffer_eq whole_mapped_buffer_eq)

text \<open>
  C5 as stated fails for \<open>flush\<close> and \<open>invalidate\<close>: on the example buffer, which was
  never mapped, both calls go through to the driver and return its \<open>VK_SUCCESS\<close>.
\<close>

theorem flush_without_mapping:
  "m_mapped example_buffer = None \<and>
   flush accept_range example_buffer VK_WHOLE_SIZE 0 =
     Inr (VK_SUCCESS, example_buffer\<lparr>vk_calls := [VkFlushMappedMemoryRanges
            \<lparr> range_memory = 2, range_offset = 0, range_size = VK_WHOLE_SIZE \<rparr>]\<rparr>) \<and>
   invalidate accept_range example_buffer VK_WHOLE_SIZE 0 =
     Inr (VK_SUCCESS, example_buffer\<lparr>vk_calls := [VkInvalidateMappedMemoryRanges
            \<lparr> range_memory = 2, range_offset = 0, range_size = VK_WHOLE_SIZE \<rparr>]\<rparr>)"
  by (simp add: example_buffer_eq flush_def invalidate_def accept_range_def Let_def)


section \<open>Properties of the descriptor pool and writer\<close>

lemma allocateDescriptorSet_result:
  "allocateDescriptorSet vk pool layout dev =
     (let r = vkAllocateDescriptorSets vk dev
                \<lparr> descriptorPool = m_descriptorPool pool, pSetLayouts = [layout],
                  descriptorSetCount = 1 \<rparr>
      in Inr (fst r = VK_SUCCESS, fst (snd r), snd (snd r)))"
  by (simp add: allocateDescriptorSet_def Let_def)

lemma allocate_fresh:
  "allocateDescriptorSet pool_driver example_pool 7 fresh_device
   = Inr (True, 1, fresh_device\<lparr>live := 1\<rparr>)"
  by (simp add: allocateDescriptorSet_result pool_driver_def fresh_device_def)

lemma allocate_exhausted:
  "allocateDescriptorSet pool_driver example_pool 7 exhausted_device
   = Inr (False, VK_NULL_HANDLE, exhausted_device)"
  by (simp add: allocateDescriptorSet_result pool_driver_def exhausted_device_def)

lemma example_writer_parts:
  "m_pool example_writer = example_pool"
  "getDescriptorSetLayout (m_setLayout example_writer) = 7"
  "m_writes example_writer = [example_write]"
  by (simp_all add: example_writer_def example_layout_def getDescriptorSetLayout_def)

lemma overwrite_result:
  "overwrite vk w s dev =
     (w\<lparr>m_writes := map (\<lambda>wr. wr\<lparr>dstSet := s\<rparr>) (m_writes w)\<rparr>,
      vkUpdateDescriptorSets vk dev (map (\<lambda>wr. wr\<lparr>dstSet := s\<rparr>) (m_writes w)))"
  by (simp add: overwrite_def Let_def)

text \<open>
  C7. Whatever the driver answers, \<open>allocateDescriptorSet\<close> returns normally: the
  \<open>bool\<close> is \<open>true\<close> exactly for \<open>VK_SUCCESS\<close>, the handle is the one the driver stored,
  and no exception is raised. In particular an exhausted pool
  (\<open>VK_ERROR_OUT_OF_POOL_MEMORY\<close>) gives \<open>false\<close>.
\<close>

theorem allocateDescriptorSet_explicit_failure:
  assumes "vkAllocateDescriptorSets vk dev
             \<lparr> descriptorPool = m_descriptorPool pool, pSetLayouts = [layout],
               descriptorSetCount = 1 \<rparr> = (res, s, dev')"
  shows "allocateDescriptorSet vk pool layout dev = Inr (res = VK_SUCCESS, s, dev') \<and>
         (res = VK_ERROR_OUT_OF_POOL_MEMORY \<longrightarrow>
            allocateDescriptorSet vk pool layout dev = Inr (False, s, dev')) \<and>
         (res = VK_SUCCESS \<longrightarrow>
            allocateDescriptorSet vk pool layout dev = Inr (True, s, dev')) \<and>
         (\<forall>e. allocateDescriptorSet vk pool layout dev \<noteq> Inl e)"
  using assms by (simp add: allocateDescriptorSet_result)

theorem allocateDescriptorSet_explicit_failure_witness:
  "vkAllocateDescriptorSets pool_driver exhausted_device
     \<lparr> descriptorPool = m_descriptorPool example_pool, pSetLayouts = [7],
       descriptorSetCount = 1 \<rparr> = (VK_ERROR_OUT_OF_POOL_MEMORY, VK_NULL_HANDLE, exhausted_device) \<and>
   allocateDescriptorSet pool_driver example_pool 7 exhausted_device
     = Inr (False, VK_NULL_HANDLE, exhausted_device) \<and>
   vkAllocateDescriptorSets pool_driver fresh_device
     \<lparr> descriptorPool = m_descriptorPool example_pool, pSetLayouts = [7],
       descriptorSetCount = 1 \<rparr> = (VK_SUCCESS, 1, fresh_device\<lparr>live := 1\<rparr>) \<and>
   allocateDescriptorSet pool_driver example_pool 7 fresh_device
     = Inr (True, 1, fresh_device\<lparr>live := 1\<rparr>)"
proof -
  have a: "vkAllocateDescriptorSets pool_driver exhausted_device
     \<lparr> descriptorPool = m_descriptorPool example_pool, pSetLayouts = [7],
       descriptorSetCount = 1 \<rparr> = (VK_ERROR_OUT_OF_POOL_MEMORY, VK_NULL_HANDLE, exhausted_device)"
    by (simp add: pool_driver_def exhausted_device_def)
  have b: "vkAllocateDescriptorSets pool_driver fresh_device
     \<lparr> descriptorPool = m_descriptorPool example_pool, pSetLayouts = [7],
       descriptorSetCount = 1 \<rparr> = (VK_SUCCESS, 1, fresh_device\<lparr>live := 1\<rparr>)"
    by (simp add: pool_driver_def fresh_device_def)
  show ?thesis
    using a b allocateDescriptorSet_explicit_failure [OF a]
      allocateDescriptorSet_explicit_failure [OF b]
    by simp
qed



text \<open>
  C1 fails for \<open>build\<close> of \<^verbatim>\<open>descriptors/descriptor_writer.cpp\<close>. On the exhausted
  pool the allocation reports failure and leaves \<open>VK_NULL_HANDLE\<close>; \<open>build\<close> of
  \<^verbatim>\<open>descriptors.cpp\<close> returns \<open>false\<close> and the device receives nothing, while the other
  \<open>build\<close> has no result to report and sends the pending write, aimed at the null
  handle, to \<open>vkUpdateDescriptorSets\<close>.
\<close>

theorem build_ignores_allocation_failure:
  "allocateDescriptorSet pool_driver (m_pool example_writer)
     (getDescriptorSetLayout (m_setLayout example_writer)) exhausted_device
     = Inr (False, VK_NULL_HANDLE, exhausted_device) \<and>
   build_descriptors_cpp pool_driver example_writer exhausted_device
     = Inr (False, example_writer, VK_NULL_HANDLE, exhausted_device) \<and>
   build_descriptor_writer_cpp pool_driver example_writer exhausted_device
     = Inr (example_writer, VK_NULL_HANDLE, exhausted_device\<lparr>received := [example_write]\<rparr>)"
proof -
  have a: "allocateDescriptorSet pool_driver (m_pool example_writer)
     (getDescriptorSetLayout (m_setLayout example_writer)) exhausted_device
     = Inr (False, VK_NULL_HANDLE, exhausted_device)"
    by (simp add: example_writer_parts allocate_exhausted)
  have w: "example_write\<lparr>dstSet := VK_NULL_HANDLE\<rparr> = example_write"
    by (simp add: example_write_def)
  have u: "example_writer\<lparr>m_writes := [example_write]\<rparr> = example_writer"
    by (simp add: example_writer_def)
  have r: "vkUpdateDescriptorSets pool_driver exhausted_device [example_write]
           = exhausted_device\<lparr>received := [example_write]\<rparr>"
    by (simp add: pool_driver_def exhausted_device_def)
  show ?thesis
    using a
    by (simp add: build_descriptors_cpp_def build_descriptor_writer_cpp_def overwrite_result
        example_writer_parts w u r)
qed




section \<open>Properties of RayTracingSceneManagerSystem\<close>

text \<open>
  C9. \<open>updateTLAS\<close> returns the system as it was, every field of it. Of the public
  member functions only \<open>createTLAS\<close> can change the state: every other call leaves
  all of it, the acceleration structure and its buffer included, unchanged, whatever
  \<open>createTLAS\<close> does.
\<close>

theorem updateTLAS_noop:
  "updateTLAS s = s \<and>
   scene_call createTLAS UpdateTLAS s = (s, None) \<and>
   ((\<forall>frameInfo. c \<noteq> CreateTLAS frameInfo) \<longrightarrow>
      fst (scene_call createTLAS c s) = s \<and>
      m_tlas (fst (scene_call createTLAS c s)) = m_tlas s \<and>
      m_tlasBuffer (fst (scene_call createTLAS c s)) = m_tlasBuffer s)"
  by (cases c) (simp_all add: updateTLAS_def scene_call_def)

theorem updateTLAS_noop_witness:
  "updateTLAS example_scene = example_scene \<and>
   fst (scene_call rebuild_stub UpdateTLAS example_scene) = example_scene \<and>
   fst (scene_call rebuild_stub GetTLASDescriptorSet example_scene) = example_scene \<and>
   m_tlas (fst (scene_call rebuild_stub (CreateTLAS 0) example_scene)) \<noteq> m_tlas example_scene"
  using updateTLAS_noop [of example_scene rebuild_stub UpdateTLAS]
    updateTLAS_noop [of example_scene rebuild_stub GetTLASDescriptorSet]
  by (simp add: scene_call_def rebuild_stub_def)

end
